theory Spec2Isabelle
  imports Complex_Main "HOL-Library.Multiset"
begin

section \<open>Corporate GHG emissions calculator (Practice/combine_emissions.py)\<close>

text \<open>
  The calculator is a Python script. Its numbers are Python ints and floats; they are
  modelled as exact rationals, so a decimal literal such as \<open>0.042\<close> is the rational
  \<open>42/1000\<close> and \<open>/\<close> is exact division. Rounding of binary floating point is not
  modelled. What Python raises is a value of \<open>py_error\<close>: every function that can raise
  returns \<open>py_error + result\<close>, with \<open>Inl\<close> for the exception. Printed figures are the
  fields of the report records the functions return.
\<close>

subsection \<open>Errors, dictionaries, the emissions service\<close>

datatype py_error =
    ConnectionError        \<comment> \<open>\<open>requests.post\<close> raised: no response at all\<close>
  | MalformedBody          \<comment> \<open>\<open>response.json()['emissions']['CO2e']\<close> raised\<close>
  | ZeroDivisionError
  | KeyError string
  | MemoryError            \<comment> \<open>a string too long for the memory at hand\<close>
  | OverflowError          \<comment> \<open>a repeat count beyond \<open>sys.maxsize\<close>\<close>

definition then_do :: "py_error + 'a \<Rightarrow> ('a \<Rightarrow> py_error + 'b) \<Rightarrow> py_error + 'b" where
  "then_do r k = (case r of Inl e \<Rightarrow> Inl e | Inr v \<Rightarrow> k v)"

definition truediv :: "rat \<Rightarrow> rat \<Rightarrow> py_error + rat" where
  \<comment> \<open>Python's \<open>a / b\<close>\<close>
  "truediv a b = (if b = 0 then Inl ZeroDivisionError else Inr (a / b))"

definition py_int :: "rat \<Rightarrow> int" where
  \<comment> \<open>Python's \<open>int(x)\<close> on a float: truncation towards zero\<close>
  "py_int x = (if 0 \<le> x then \<lfloor>x\<rfloor> else \<lceil>x\<rceil>)"

definition ssize_max :: int where
  \<comment> \<open>\<open>sys.maxsize\<close> of a 64-bit CPython\<close>
  "ssize_max = 2 ^ 63 - 1"

text \<open>\<open>c * n\<close> for a one-character string \<open>c\<close>: the result is its length. A count of 0
  or less gives the empty string, a count above \<open>sys.maxsize\<close> raises OverflowError, and
  a string the interpreter cannot allocate raises MemoryError. How long a string can be
  allocated depends on the machine; that length, \<open>cap\<close>, is a parameter of the model.\<close>

definition str_repeat :: "nat \<Rightarrow> int \<Rightarrow> py_error + nat" where
  "str_repeat cap n =
     (if n \<le> 0 then Inr 0
      else if ssize_max < n then Inl OverflowError
      else if int cap < n then Inl MemoryError
      else Inr (nat n))"

text \<open>A Python dict keeps its keys in insertion order; \<open>d[k] = v\<close> overwrites in place
  or appends.\<close>

type_synonym breakdown = "(string \<times> rat) list"

fun dict_set :: "breakdown \<Rightarrow> string \<Rightarrow> rat \<Rightarrow> breakdown" where
  "dict_set [] k v = [(k, v)]"
| "dict_set ((k', v') # kvs) k v =
     (if k' = k then (k, v) # kvs else (k', v') # dict_set kvs k v)"

definition dict_get :: "breakdown \<Rightarrow> string \<Rightarrow> rat \<Rightarrow> rat" where
  \<comment> \<open>\<open>d.get(k, default)\<close>\<close>
  "dict_get d k dflt = (case map_of d k of None \<Rightarrow> dflt | Some v \<Rightarrow> v)"

definition get :: "'a option \<Rightarrow> 'a \<Rightarrow> 'a" where
  \<comment> \<open>\<open>company_data.get(key, default)\<close> on a key that may be absent\<close>
  "get field dflt = (case field of None \<Rightarrow> dflt | Some v \<Rightarrow> v)"

record location =
  country :: string
  state :: string

record company_data =
  company_name :: "string option"
  industry :: "string option"
  employee_count :: "rat option"
  location :: "location option"
  heating_fuel :: "string option"
  heating_fuel_amount :: "rat option"
  fleet_size :: "rat option"
  fleet_fuel :: "rat option"
  refrigerant_leakage :: "rat option"
  electricity_consumption :: "rat option"
  renewable_energy_percent :: "rat option"
  annual_procurement_spend :: "rat option"
  capital_expenditure :: "rat option"
  annual_air_miles :: "rat option"
  avg_commute_miles :: "rat option"
  sells_energy_using_products :: "bool option"
  products_sold :: "rat option"
  product_lifetime_kwh :: "rat option"
  sells_physical_products :: "bool option"
  annual_product_weight_tonnes :: "rat option"

record electricity_source =
  source_type :: string
  amount :: rat
  emission_factor :: "rat option"

datatype payload =
    Stationary string rat location          \<comment> \<open>fuel type, fuel amount (therms), location\<close>
  | Mobile rat rat                          \<comment> \<open>fuel amount (gallons), vehicle count\<close>
  | Fugitive rat                            \<comment> \<open>gas amount (kg of R-410A)\<close>
  | LocationBased rat location              \<comment> \<open>consumption (kWh), location\<close>
  | MarketBased rat "electricity_source list"  \<comment> \<open>total consumption, sources\<close>
  | BusinessTravel rat                      \<comment> \<open>total air miles\<close>

datatype http_result =
    NoResponse
  | Response (status_code: int) (json_co2e: "rat option")

text \<open>The external service: endpoint name, payload and bearer token to what comes back.\<close>

type_synonym service = "string \<Rightarrow> payload \<Rightarrow> string \<Rightarrow> http_result"

definition call_emission_api :: "service \<Rightarrow> string \<Rightarrow> payload \<Rightarrow> string \<Rightarrow> py_error + http_result" where
  "call_emission_api svc endpoint pl token =
     (case svc endpoint pl token of
        NoResponse \<Rightarrow> Inl ConnectionError
      | Response st body \<Rightarrow> Inr (Response st body))"

definition co2e_of :: "http_result \<Rightarrow> py_error + rat" where
  \<comment> \<open>\<open>response.json()['emissions']['CO2e']\<close>\<close>
  "co2e_of r = (case json_co2e r of None \<Rightarrow> Inl MalformedBody | Some e \<Rightarrow> Inr e)"

definition default_location :: location where
  "default_location = \<lparr>country = ''USA'', state = ''California''\<rparr>"

subsection \<open>Scope 1\<close>

definition stationary_payload :: "company_data \<Rightarrow> payload" where
  "stationary_payload cd =
     Stationary (get (heating_fuel cd) ''natural_gas'') (get (heating_fuel_amount cd) 50000)
       (get (location cd) default_location)"

definition mobile_payload :: "company_data \<Rightarrow> payload" where
  "mobile_payload cd = Mobile (get (fleet_fuel cd) 10000) (get (fleet_size cd) 10)"

definition fugitive_payload :: "company_data \<Rightarrow> payload" where
  "fugitive_payload cd = Fugitive (get (refrigerant_leakage cd) 5)"

definition scope1_category ::
  "service \<Rightarrow> string \<Rightarrow> string \<Rightarrow> payload \<Rightarrow> string \<Rightarrow> rat \<times> breakdown \<Rightarrow> py_error + rat \<times> breakdown" where
  \<comment> \<open>one call and its \<open>if response.status_code == 200:\<close> block, which has no else branch\<close>
  "scope1_category svc token endpoint pl key acc =
     then_do (call_emission_api svc endpoint pl token) (\<lambda>response.
       if status_code response = 200
       then then_do (co2e_of response) (\<lambda>e. Inr (fst acc + e, dict_set (snd acc) key e))
       else Inr acc)"

definition calculate_scope1_emissions :: "service \<Rightarrow> string \<Rightarrow> company_data \<Rightarrow> py_error + rat \<times> breakdown" where
  "calculate_scope1_emissions svc token cd =
     then_do (scope1_category svc token ''stationary'' (stationary_payload cd)
                ''stationary_combustion'' (0, [])) (\<lambda>acc1.
     then_do (scope1_category svc token ''mobile'' (mobile_payload cd)
                ''mobile_combustion'' acc1) (\<lambda>acc2.
     scope1_category svc token ''fugitive'' (fugitive_payload cd) ''fugitive'' acc2))"

subsection \<open>Scope 2\<close>

definition location_payload :: "company_data \<Rightarrow> payload" where
  "location_payload cd =
     LocationBased (get (electricity_consumption cd) 500000) (get (location cd) default_location)"

definition market_payload :: "company_data \<Rightarrow> payload" where
  "market_payload cd =
     (let electricity_kwh = get (electricity_consumption cd) 500000;
          renewable_percentage = get (renewable_energy_percent cd) 30
      in MarketBased electricity_kwh
           [\<lparr>source_type = ''grid_mix'',
             amount = electricity_kwh * (1 - renewable_percentage / 100),
             emission_factor = None\<rparr>,
            \<lparr>source_type = ''renewable_energy_certificates'',
             amount = electricity_kwh * (renewable_percentage / 100),
             emission_factor = Some 0\<rparr>])"

definition scope2_method :: "service \<Rightarrow> string \<Rightarrow> string \<Rightarrow> payload \<Rightarrow> py_error + rat" where
  \<comment> \<open>the variable starts at 0 and is overwritten only on status 200\<close>
  "scope2_method svc token endpoint pl =
     then_do (call_emission_api svc endpoint pl token) (\<lambda>response.
       if status_code response = 200 then co2e_of response else Inr 0)"

definition calculate_scope2_emissions :: "service \<Rightarrow> string \<Rightarrow> company_data \<Rightarrow> py_error + rat \<times> rat" where
  "calculate_scope2_emissions svc token cd =
     then_do (scope2_method svc token ''location_based'' (location_payload cd)) (\<lambda>location_based.
     then_do (scope2_method svc token ''market_based'' (market_payload cd)) (\<lambda>market_based.
     Inr (location_based, market_based)))"

subsection \<open>Scope 3\<close>

definition business_travel_payload :: "company_data \<Rightarrow> payload" where
  "business_travel_payload cd = BusinessTravel (get (annual_air_miles cd) 500000)"

definition add_category :: "string \<Rightarrow> rat \<Rightarrow> rat \<times> breakdown \<Rightarrow> rat \<times> breakdown" where
  \<comment> \<open>\<open>scope3_breakdown[key] = v; scope3_total += v\<close>\<close>
  "add_category key v acc = (fst acc + v, dict_set (snd acc) key v)"

definition calculate_scope3_emissions :: "service \<Rightarrow> string \<Rightarrow> company_data \<Rightarrow> py_error + rat \<times> breakdown" where
  "calculate_scope3_emissions svc token cd =
     (let annual_spend = get (annual_procurement_spend cd) 5000000;
          acc1 = add_category ''purchased_goods'' (annual_spend * (35 / 100000)) (0, []);
          capital_spend = get (capital_expenditure cd) 1000000;
          acc2 = add_category ''capital_goods'' (capital_spend * (45 / 100000)) acc1;
          fuel_energy = dict_get (snd acc2) ''stationary_combustion'' 0 * (2 / 10);
          acc3 = add_category ''fuel_energy_related'' fuel_energy acc2;
          acc4 = add_category ''upstream_transport'' (annual_spend * (8 / 100000)) acc3;
          employees = get (employee_count cd) 100;
          acc5 = add_category ''waste'' (employees * (2 / 10)) acc4
      in then_do (call_emission_api svc ''business_travel'' (business_travel_payload cd) token)
           (\<lambda>response.
      then_do (if status_code response = 200 then co2e_of response
               else Inr (get (annual_air_miles cd) 500000 * (15 / 100000)))
           (\<lambda>business_travel.
       let acc6 = add_category ''business_travel'' business_travel acc5;
           avg_commute = get (avg_commute_miles cd) 20;
           working_days = 220;
           acc7 = add_category ''commuting''
                    (employees * avg_commute * working_days * (4 / 10000)) acc6;
           acc8 = (if get (sells_energy_using_products cd) False
                   then add_category ''use_of_products''
                          (get (products_sold cd) 10000 * get (product_lifetime_kwh cd) 1000
                             * (4 / 10000)) acc7
                   else acc7);
           acc9 = (if get (sells_physical_products cd) False
                   then add_category ''end_of_life''
                          (get (annual_product_weight_tonnes cd) 100 * (5 / 10)) acc8
                   else acc8)
       in Inr acc9)))"

subsection \<open>Complete footprint analysis\<close>

text \<open>\<open>all_categories.sort(key=lambda x: x[1], reverse=True)\<close>: Python's list sort is
  stable, also with \<open>reverse=True\<close>. It is modelled by a stable insertion sort into
  descending order of the amount: an entry goes in front of the first entry whose amount
  is not larger than its own.\<close>

fun insert_desc :: "string \<times> rat \<Rightarrow> (string \<times> rat) list \<Rightarrow> (string \<times> rat) list" where
  "insert_desc x [] = [x]"
| "insert_desc x (y # ys) = (if snd y \<le> snd x then x # y # ys else y # insert_desc x ys)"

fun sort_desc :: "(string \<times> rat) list \<Rightarrow> (string \<times> rat) list" where
  "sort_desc [] = []"
| "sort_desc (x # xs) = insert_desc x (sort_desc xs)"

record breakdowns =
  scope1_breakdown :: breakdown
  scope3_breakdown :: breakdown

definition all_categories :: "rat \<Rightarrow> breakdowns \<Rightarrow> (string \<times> rat) list" where
  \<comment> \<open>the list as it stands just before the sort\<close>
  "all_categories scope2_location bds =
     map (\<lambda>(category, amt). (''Scope 1 - '' @ category, amt)) (scope1_breakdown bds)
     @ [(''Scope 2 - Electricity'', scope2_location)]
     @ map (\<lambda>(category, amt). (''Scope 3 - '' @ category, amt)) (scope3_breakdown bds)"

record footprint_report =
  total_location :: rat
  total_market :: rat
  scope1_pct :: rat
  scope2_pct :: rat
  scope3_pct :: rat
  scope1_bar :: nat   \<comment> \<open>block characters in the bar of the distribution chart\<close>
  scope2_bar :: nat
  scope3_bar :: nat
  hotspots :: "(string \<times> rat \<times> rat) list"   \<comment> \<open>label, amount, percentage\<close>
  intensity :: rat
  cars :: rat
  homes :: rat
  trees :: rat
  flights :: rat

fun hotspot_lines :: "rat \<Rightarrow> (string \<times> rat) list \<Rightarrow> py_error + (string \<times> rat \<times> rat) list" where
  \<comment> \<open>the loop over \<open>all_categories[:5]\<close>\<close>
  "hotspot_lines total_loc [] = Inr []"
| "hotspot_lines total_loc ((category, amt) # rest) =
     then_do (truediv amt total_loc) (\<lambda>q.
     then_do (hotspot_lines total_loc rest) (\<lambda>lines.
     Inr ((category, amt, q * 100) # lines)))"

definition bar :: "nat \<Rightarrow> rat \<Rightarrow> py_error + nat" where
  \<comment> \<open>one bar of the distribution chart: the block character \<open>* int(pct/2)\<close>\<close>
  "bar cap pct = str_repeat cap (py_int (pct / 2))"

definition bar_fits :: "nat \<Rightarrow> rat \<Rightarrow> bool" where
  \<comment> \<open>the bar of this percentage can be built\<close>
  "bar_fits cap pct = (py_int (pct / 2) \<le> int cap \<and> py_int (pct / 2) \<le> ssize_max)"

definition analyze_complete_footprint ::
  "nat \<Rightarrow> rat \<Rightarrow> rat \<Rightarrow> rat \<Rightarrow> rat \<Rightarrow> breakdowns \<Rightarrow> py_error + footprint_report" where
  \<comment> \<open>\<open>cap\<close> is the machine's limit on the length of a string, see \<open>str_repeat\<close>\<close>
  "analyze_complete_footprint cap scope1 scope2_location scope2_market scope3 bds =
     (let total_loc = scope1 + scope2_location + scope3;
          total_mkt = scope1 + scope2_market + scope3
      in then_do (truediv scope1 total_loc) (\<lambda>q1.
         then_do (truediv scope2_location total_loc) (\<lambda>q2.
         then_do (truediv scope3 total_loc) (\<lambda>q3.
         then_do (bar cap (q1 * 100)) (\<lambda>bar1.
         then_do (bar cap (q2 * 100)) (\<lambda>bar2.
         then_do (bar cap (q3 * 100)) (\<lambda>bar3.
         then_do (hotspot_lines total_loc (take 5 (sort_desc (all_categories scope2_location bds))))
           (\<lambda>lines.
         let employees = 100
         in Inr \<lparr>total_location = total_loc, total_market = total_mkt,
                 scope1_pct = q1 * 100, scope2_pct = q2 * 100, scope3_pct = q3 * 100,
                 scope1_bar = bar1, scope2_bar = bar2, scope3_bar = bar3,
                 hotspots = lines,
                 intensity = total_loc / employees,
                 cars = total_loc / (46 / 10), homes = total_loc / (85 / 10),
                 trees = total_loc / (25 / 1000), flights = total_loc / (9 / 10)\<rparr>))))))))"

subsection \<open>Reduction pathway\<close>

record reduction_target =
  year :: nat
  target :: rat
  reduction :: rat
  reduction_pct :: rat

definition annual_reduction_rate :: rat where
  "annual_reduction_rate = 42 / 1000"

fun pathway_targets :: "rat \<Rightarrow> nat list \<Rightarrow> py_error + reduction_target list" where
  \<comment> \<open>the loop \<open>for year in years\<close>\<close>
  "pathway_targets total_emissions [] = Inr []"
| "pathway_targets total_emissions (y # years) =
     (let tgt = total_emissions * ((1 - annual_reduction_rate) ^ y);
          red = total_emissions - tgt
      in then_do (truediv red total_emissions) (\<lambda>q.
         then_do (pathway_targets total_emissions years) (\<lambda>rest.
         Inr (\<lparr>year = y, target = tgt, reduction = red, reduction_pct = q * 100\<rparr> # rest))))"

record pathway_report =
  targets :: "reduction_target list"
  target_2030 :: rat
  target_2050 :: rat
  annual_reduction_2030 :: rat
  monthly_reduction_2030 :: rat
  weekly_reduction_2030 :: rat

definition calculate_reduction_pathway :: "rat \<Rightarrow> py_error + pathway_report" where
  "calculate_reduction_pathway total_emissions =
     then_do (pathway_targets total_emissions [1, 3, 5, 10]) (\<lambda>ts.
       let t2030 = total_emissions * (5 / 10);
           t2050 = total_emissions * (1 / 10);
           years_to_2030 = 6;
           annual = (total_emissions - t2030) / years_to_2030
       in Inr \<lparr>targets = ts, target_2030 = t2030, target_2050 = t2050,
               annual_reduction_2030 = annual,
               monthly_reduction_2030 = annual / 12,
               weekly_reduction_2030 = annual / 52\<rparr>)"

subsection \<open>Reduction roadmap\<close>

record roadmap_report =
  potentials :: "rat list"
  total_potential :: rat
  achievable_pct :: rat

definition create_reduction_roadmap ::
  "rat \<Rightarrow> rat \<Rightarrow> rat \<Rightarrow> breakdowns \<Rightarrow> py_error + roadmap_report" where
  "create_reduction_roadmap scope1 scope2 scope3 bds =
     (let potential_1 = scope2 * (20 / 100);
          potential_2 = dict_get (scope3_breakdown bds) ''business_travel'' 0 * (30 / 100);
          potential_3 = scope2 * (50 / 100);
          potential_4 = dict_get (scope1_breakdown bds) ''mobile_combustion'' 0 * (40 / 100);
          potential_5 = dict_get (scope3_breakdown bds) ''purchased_goods'' 0 * (25 / 100);
          potential_6 = dict_get (scope1_breakdown bds) ''stationary_combustion'' 0 * (60 / 100);
          ps = [potential_1, potential_2, potential_3, potential_4, potential_5, potential_6];
          total_pot = sum_list ps
      in then_do (truediv total_pot (scope1 + scope2 + scope3)) (\<lambda>q.
         Inr \<lparr>potentials = ps, total_potential = total_pot, achievable_pct = q * 100\<rparr>))"

subsection \<open>Cost-benefit analysis\<close>

record strategy =
  name :: string
  cost :: rat
  annual_savings :: rat
  emission_reduction :: rat
  payback_years :: rat

definition strategies :: "strategy list" where
  "strategies =
     [\<lparr>name = ''LED Lighting'', cost = 50000, annual_savings = 15000,
       emission_reduction = 50, payback_years = 33 / 10\<rparr>,
      \<lparr>name = ''Solar Installation'', cost = 500000, annual_savings = 75000,
       emission_reduction = 200, payback_years = 67 / 10\<rparr>,
      \<lparr>name = ''Fleet Electrification'', cost = 200000, annual_savings = 30000,
       emission_reduction = 100, payback_years = 67 / 10\<rparr>,
      \<lparr>name = ''Building Insulation'', cost = 100000, annual_savings = 20000,
       emission_reduction = 75, payback_years = 5\<rparr>]"

record strategy_line =
  strategy_name :: string
  investment :: rat
  energy_savings :: rat
  carbon_value :: rat
  total_annual_value :: rat
  payback_period :: rat

definition carbon_price :: rat where
  "carbon_price = 50"

definition strategy_report :: "strategy \<Rightarrow> strategy_line" where
  \<comment> \<open>the body of \<open>for strategy in strategies\<close>\<close>
  "strategy_report s =
     (let cv = emission_reduction s * carbon_price;
          tav = annual_savings s + cv
      in \<lparr>strategy_name = name s, investment = cost s, energy_savings = annual_savings s,
           carbon_value = cv, total_annual_value = tav, payback_period = payback_years s\<rparr>)"

record cost_benefit_report =
  annual_carbon_cost :: rat
  strategy_lines :: "strategy_line list"

definition analyze_costs_and_benefits :: "rat \<Rightarrow> cost_benefit_report" where
  "analyze_costs_and_benefits total_emissions =
     \<lparr>annual_carbon_cost = total_emissions * carbon_price,
      strategy_lines = map strategy_report strategies\<rparr>"

subsection \<open>Orchestration\<close>

datatype auth_result =
    AuthNoResponse
  | AuthResponse int "string option"   \<comment> \<open>status code, \<open>access_token\<close> of the body\<close>

definition get_auth_token :: "auth_result \<Rightarrow> py_error + string option" where
  "get_auth_token a =
     (case a of
        AuthNoResponse \<Rightarrow> Inl ConnectionError
      | AuthResponse st tok \<Rightarrow>
          if st = 200
          then (case tok of None \<Rightarrow> Inl (KeyError ''access_token'') | Some t \<Rightarrow> Inr (Some t))
          else Inr None)"

definition example_company_data :: company_data where
  "example_company_data =
     \<lparr>company_name = Some ''Example Corp'', industry = Some ''Technology'',
      employee_count = Some 100,
      location = Some \<lparr>country = ''USA'', state = ''California''\<rparr>,
      heating_fuel = Some ''natural_gas'', heating_fuel_amount = Some 50000,
      fleet_size = Some 10, fleet_fuel = Some 10000, refrigerant_leakage = Some 5,
      electricity_consumption = Some 500000, renewable_energy_percent = Some 30,
      annual_procurement_spend = Some 5000000, capital_expenditure = Some 1000000,
      annual_air_miles = Some 500000, avg_commute_miles = Some 20,
      sells_energy_using_products = Some False,
      products_sold = None, product_lifetime_kwh = None,
      sells_physical_products = Some False,
      annual_product_weight_tonnes = None\<rparr>"

record run_report =
  scope1_total :: rat
  scope1_entries :: breakdown
  scope2_location_total :: rat
  scope2_market_total :: rat
  scope3_total :: rat
  scope3_entries :: breakdown
  footprint :: footprint_report
  pathway :: pathway_report
  roadmap :: roadmap_report
  cost_benefit :: cost_benefit_report
  per_employee :: rat
  scope3_share :: rat
  renewable_cut :: rat

definition run ::
  "nat \<Rightarrow> auth_result \<Rightarrow> service \<Rightarrow> company_data \<Rightarrow> py_error + run_report option" where
  \<comment> \<open>the body of \<open>main\<close> below the \<open>company_data\<close> literal; \<open>None\<close> is the early
      \<open>return\<close> after "Cannot proceed without authentication"; \<open>cap\<close> as in
      \<open>analyze_complete_footprint\<close>\<close>
  "run cap auth svc cd =
     then_do (get_auth_token auth) (\<lambda>tok.
       case tok of
         None \<Rightarrow> Inr None
       | Some token \<Rightarrow>
           if token = [] then Inr None
           else
     then_do (calculate_scope1_emissions svc token cd) (\<lambda>(scope1, s1_breakdown).
     then_do (calculate_scope2_emissions svc token cd) (\<lambda>(scope2_location, scope2_market).
     then_do (calculate_scope3_emissions svc token cd) (\<lambda>(scope3, s3_breakdown).
     let bds = \<lparr>scope1_breakdown = s1_breakdown, scope3_breakdown = s3_breakdown\<rparr>
     in
     then_do (analyze_complete_footprint cap scope1 scope2_location scope2_market scope3 bds)
       (\<lambda>fp.
     then_do (calculate_reduction_pathway (total_location fp)) (\<lambda>pw.
     then_do (create_reduction_roadmap scope1 scope2_location scope3 bds) (\<lambda>rm.
     let cb = analyze_costs_and_benefits (total_location fp)
     in
     then_do (case employee_count cd of
                None \<Rightarrow> Inl (KeyError ''employee_count'')
              | Some n \<Rightarrow> truediv (total_location fp) n) (\<lambda>pe.
     then_do (truediv scope3 (total_location fp)) (\<lambda>q3.
     then_do (truediv (scope2_location - scope2_market) scope2_location) (\<lambda>qr.
     Inr (Some \<lparr>scope1_total = scope1, scope1_entries = s1_breakdown,
                 scope2_location_total = scope2_location, scope2_market_total = scope2_market,
                 scope3_total = scope3, scope3_entries = s3_breakdown,
                 footprint = fp, pathway = pw, roadmap = rm, cost_benefit = cb,
                 per_employee = pe, scope3_share = q3 * 100,
                 renewable_cut = qr * 100\<rparr>)))))))))))"

definition main :: "nat \<Rightarrow> auth_result \<Rightarrow> service \<Rightarrow> py_error + run_report option" where
  "main cap auth svc = run cap auth svc example_company_data"

subsection \<open>Services used in the examples\<close>

definition flat_service :: "int \<Rightarrow> rat option \<Rightarrow> service" where
  \<comment> \<open>answers every call with the same status and the same \<open>CO2e\<close> field\<close>
  "flat_service st body = (\<lambda>endpoint pl token. Response st body)"

definition unreachable_service :: service where
  \<comment> \<open>no call gets a response\<close>
  "unreachable_service = (\<lambda>endpoint pl token. NoResponse)"

definition source_emissions :: "rat \<Rightarrow> electricity_source \<Rightarrow> rat" where
  "source_emissions f s = amount s * get (emission_factor s) f"

text \<open>Modelled from the spec: the Emission Factor Service is an external HTTP service and
  no code of it is in the repository. The spec's Scope 2 scenario (500,000 kWh, renewable
  share 30, grid factor 0.0005 t/kWh: location-based 250.0, market-based
  500,000 * 0.70 * 0.0005 = 175.0, the renewable portion contributing 0) fixes what it
  does "given identical per-kWh factors": one per-kWh factor \<open>f\<close> for grid electricity,
  applied to the whole consumption under the location-based method and to every source
  without a factor of its own under the market-based method; a source that carries its
  own factor is charged at that factor.\<close>

fun factor_service :: "rat \<Rightarrow> service" where
  "factor_service f endpoint (LocationBased kwh loc) token = Response 200 (Some (kwh * f))"
| "factor_service f endpoint (MarketBased kwh sources) token =
     Response 200 (Some (sum_list (map (source_emissions f) sources)))"
| "factor_service f endpoint pl token = Response 404 None"

fun partial_service :: service where
  \<comment> \<open>only the stationary-combustion call succeeds\<close>
  "partial_service endpoint (Stationary fuel amt loc) token = Response 200 (Some 265)"
| "partial_service endpoint pl token = Response 503 None"

definition answered :: "http_result \<Rightarrow> bool" where
  \<comment> \<open>the call got a response, and a response with status 200 carries the \<open>CO2e\<close> field\<close>
  "answered r = (case r of NoResponse \<Rightarrow> False | Response st body \<Rightarrow> st = 200 \<longrightarrow> body \<noteq> None)"

definition ok :: "http_result \<Rightarrow> bool" where
  \<comment> \<open>the response has status 200\<close>
  "ok r = (case r of NoResponse \<Rightarrow> False | Response st body \<Rightarrow> st = 200)"

section \<open>Properties\<close>

subsection \<open>The sort\<close>

lemma mset_insert_desc: "mset (insert_desc x xs) = add_mset x (mset xs)"
  by (induction xs) auto

lemma mset_sort_desc: "mset (sort_desc xs) = mset xs"
  by (induction xs) (auto simp: mset_insert_desc)

lemma set_insert_desc: "set (insert_desc x xs) = insert x (set xs)"
  by (induction xs) auto

lemma descending_insert_desc:
  "sorted_wrt (\<lambda>a b. snd b \<le> snd a) xs \<Longrightarrow> sorted_wrt (\<lambda>a b. snd b \<le> snd a) (insert_desc x xs)"
  by (induction xs) (auto simp: set_insert_desc)

lemma descending_sort_desc: "sorted_wrt (\<lambda>a b. snd b \<le> snd a) (sort_desc xs)"
  by (induction xs) (auto simp: descending_insert_desc)

text \<open>Stability: the entries of any one amount come out in the order they went in. An
  entry is inserted in front of the first entry that is not larger, so in front of every
  entry of its own amount that is already there, and those all came after it.\<close>

lemma filter_insert_desc:
  "filter (\<lambda>e. snd e = k) (insert_desc x xs) =
     (if snd x = k then x # filter (\<lambda>e. snd e = k) xs else filter (\<lambda>e. snd e = k) xs)"
  by (induction xs) auto

lemma stable_sort_desc: "filter (\<lambda>e. snd e = k) (sort_desc xs) = filter (\<lambda>e. snd e = k) xs"
  by (induction xs) (auto simp: filter_insert_desc)

lemma descending_nth:
  fixes xs :: "(string \<times> rat) list"
  assumes "sorted_wrt (\<lambda>a b. snd b \<le> snd a) xs" "i < length xs" "j < length xs"
    "snd (xs ! j) < snd (xs ! i)"
  shows "i < j"
proof (rule ccontr)
  assume "\<not> i < j"
  then have "j < i \<or> j = i" by auto
  then show False
  proof
    assume "j < i"
    with assms(1,2) have "snd (xs ! i) \<le> snd (xs ! j)"
      by (simp add: sorted_wrt_iff_nth_less)
    with assms(4) show False by simp
  next
    assume "j = i"
    with assms(4) show False by simp
  qed
qed

subsection \<open>The footprint analysis\<close>

lemma hotspot_lines_nonzero:
  "total_loc \<noteq> 0 \<Longrightarrow>
     hotspot_lines total_loc xs = Inr (map (\<lambda>(l, a). (l, a, a / total_loc * 100)) xs)"
  by (induction xs) (auto simp: then_do_def truediv_def)

lemma bar_value: "bar_fits cap pct \<Longrightarrow> bar cap pct = Inr (nat (py_int (pct / 2)))"
  by (simp add: bar_def bar_fits_def str_repeat_def)

lemma analyze_nonzero:
  assumes "scope1 + scope2_location + scope3 \<noteq> 0"
    and "bar_fits cap (scope1 / (scope1 + scope2_location + scope3) * 100)"
    and "bar_fits cap (scope2_location / (scope1 + scope2_location + scope3) * 100)"
    and "bar_fits cap (scope3 / (scope1 + scope2_location + scope3) * 100)"
  shows "analyze_complete_footprint cap scope1 scope2_location scope2_market scope3 bds =
     Inr \<lparr>total_location = scope1 + scope2_location + scope3,
          total_market = scope1 + scope2_market + scope3,
          scope1_pct = scope1 / (scope1 + scope2_location + scope3) * 100,
          scope2_pct = scope2_location / (scope1 + scope2_location + scope3) * 100,
          scope3_pct = scope3 / (scope1 + scope2_location + scope3) * 100,
          scope1_bar = nat (py_int (scope1 / (scope1 + scope2_location + scope3) * 100 / 2)),
          scope2_bar =
            nat (py_int (scope2_location / (scope1 + scope2_location + scope3) * 100 / 2)),
          scope3_bar = nat (py_int (scope3 / (scope1 + scope2_location + scope3) * 100 / 2)),
          hotspots = map (\<lambda>(l, a). (l, a, a / (scope1 + scope2_location + scope3) * 100))
                       (take 5 (sort_desc (all_categories scope2_location bds))),
          intensity = (scope1 + scope2_location + scope3) / 100,
          cars = (scope1 + scope2_location + scope3) / (46 / 10),
          homes = (scope1 + scope2_location + scope3) / (85 / 10),
          trees = (scope1 + scope2_location + scope3) / (25 / 1000),
          flights = (scope1 + scope2_location + scope3) / (9 / 10)\<rparr>"
  using assms(1) bar_value [OF assms(2)] bar_value [OF assms(3)] bar_value [OF assms(4)]
  by (simp add: analyze_complete_footprint_def Let_def then_do_def truediv_def
      hotspot_lines_nonzero)

text \<open>When the first bar cannot be built the analysis ends there, before the hotspots, in
  one of the two errors of \<open>str_repeat\<close>.\<close>

lemma analyze_bar_raises:
  assumes "scope1 + scope2_location + scope3 \<noteq> 0"
    and "\<not> bar_fits cap (scope1 / (scope1 + scope2_location + scope3) * 100)"
  shows "analyze_complete_footprint cap scope1 scope2_location scope2_market scope3 bds
           = Inl MemoryError \<or>
         analyze_complete_footprint cap scope1 scope2_location scope2_market scope3 bds
           = Inl OverflowError"
proof -
  let ?n = "py_int (scope1 / (scope1 + scope2_location + scope3) * 100 / 2)"
  from assms(2) have "int cap < ?n \<or> ssize_max < ?n"
    by (auto simp: bar_fits_def)
  moreover have "0 \<le> int cap" "0 \<le> ssize_max"
    by (simp_all add: ssize_max_def)
  ultimately have "bar cap (scope1 / (scope1 + scope2_location + scope3) * 100) = Inl MemoryError
      \<or> bar cap (scope1 / (scope1 + scope2_location + scope3) * 100) = Inl OverflowError"
    by (auto simp: bar_def str_repeat_def)
  with assms(1) show ?thesis
    by (auto simp: analyze_complete_footprint_def Let_def then_do_def truediv_def)
qed

lemma analyze_zero:
  assumes "scope1 + scope2_location + scope3 = 0"
  shows "analyze_complete_footprint cap scope1 scope2_location scope2_market scope3 bds =
           Inl ZeroDivisionError"
  using assms
  by (simp add: analyze_complete_footprint_def Let_def then_do_def truediv_def)

text \<open>
  C8. Whenever the analysis gets as far as the hotspots (the location-based total is not
  zero and the three bars of the distribution chart can be built), the hotspot list is
  made from the Scope 1 entries, then one entry "Scope 2 - Electricity" with the
  location-based amount, then the Scope 3 entries, each in its breakdown's order. The
  ranking is a rearrangement of that list in which an entry with a larger amount always
  stands before one with a smaller amount, and in which the entries of any one amount keep
  the order they had before the sort. The first five of the ranking are reported, each
  with its amount divided by the location-based total (as a percentage).
\<close>

theorem hotspots_ranked:
  assumes "scope1 + scope2_location + scope3 \<noteq> 0"
    and "bar_fits cap (scope1 / (scope1 + scope2_location + scope3) * 100)"
    and "bar_fits cap (scope2_location / (scope1 + scope2_location + scope3) * 100)"
    and "bar_fits cap (scope3 / (scope1 + scope2_location + scope3) * 100)"
  shows "\<exists>r. analyze_complete_footprint cap scope1 scope2_location scope2_market scope3 bds
                = Inr r \<and>
     (let flat = map (\<lambda>(category, amt). (''Scope 1 - '' @ category, amt)) (scope1_breakdown bds)
                 @ [(''Scope 2 - Electricity'', scope2_location)]
                 @ map (\<lambda>(category, amt). (''Scope 3 - '' @ category, amt)) (scope3_breakdown bds);
          ranked = sort_desc flat
      in mset ranked = mset flat \<and>
         (\<forall>i j. i < length ranked \<and> j < length ranked \<and> snd (ranked ! j) < snd (ranked ! i)
                  \<longrightarrow> i < j) \<and>
         (\<forall>a. filter (\<lambda>e. snd e = a) ranked = filter (\<lambda>e. snd e = a) flat) \<and>
         hotspots r = map (\<lambda>(label, amt). (label, amt, amt / total_location r * 100)) (take 5 ranked) \<and>
         total_location r = scope1 + scope2_location + scope3)"
proof -
  let ?flat = "all_categories scope2_location bds"
  have "\<forall>i j. i < length (sort_desc ?flat) \<and> j < length (sort_desc ?flat)
           \<and> snd (sort_desc ?flat ! j) < snd (sort_desc ?flat ! i) \<longrightarrow> i < j"
    using descending_nth [OF descending_sort_desc] by blast
  then show ?thesis
    unfolding analyze_nonzero [OF assms] Let_def all_categories_def [symmetric]
    by (simp add: mset_sort_desc stable_sort_desc)
qed

theorem hotspots_ranked_witness:
  "(795::rat) + 265 + 3061 \<noteq> 0 \<and>
   bar_fits 1000000 (795 / (795 + 265 + 3061) * 100) \<and>
   bar_fits 1000000 (265 / (795 + 265 + 3061) * 100) \<and>
   bar_fits 1000000 (3061 / (795 + 265 + 3061) * 100) \<and>
   (\<exists>r. analyze_complete_footprint 1000000 795 265 265 3061
          \<lparr>scope1_breakdown = [(''stationary_combustion'', 265), (''mobile_combustion'', 265),
                               (''fugitive'', 265)],
           scope3_breakdown = [(''purchased_goods'', 1750), (''business_travel'', 265),
                               (''capital_goods'', 450)]\<rparr> = Inr r \<and>
        map fst (hotspots r) =
          [''Scope 3 - purchased_goods'', ''Scope 3 - capital_goods'',
           ''Scope 1 - stationary_combustion'', ''Scope 1 - mobile_combustion'',
           ''Scope 1 - fugitive''])"
proof -
  have h: "(795::rat) + 265 + 3061 \<noteq> 0"
    "bar_fits 1000000 (795 / (795 + 265 + 3061) * 100)"
    "bar_fits 1000000 (265 / (795 + 265 + 3061) * 100)"
    "bar_fits 1000000 (3061 / (795 + 265 + 3061) * 100)"
    by (simp_all add: bar_fits_def py_int_def ssize_max_def)
  show ?thesis
    using h hotspots_ranked [OF h, of 265
      "\<lparr>scope1_breakdown = [(''stationary_combustion'', 265), (''mobile_combustion'', 265),
                               (''fugitive'', 265)],
           scope3_breakdown = [(''purchased_goods'', 1750), (''business_travel'', 265),
                               (''capital_goods'', 450)]\<rparr>"]
    by (auto simp: Let_def)
qed

text \<open>
  C2, as the code has it. The analysis has no guard on the total: with all four figures 0
  and empty breakdowns it ends in Python's ZeroDivisionError, at the first percentage.
\<close>

theorem zero_total_raises_counterexample:
  "analyze_complete_footprint 1000000 0 0 0 0 \<lparr>scope1_breakdown = [], scope3_breakdown = []\<rparr>
     = Inl ZeroDivisionError"
  by (simp add: analyze_complete_footprint_def Let_def then_do_def truediv_def)

text \<open>
  C2, amended. For every input whose location-based total
  \<open>scope1 + scope2_location + scope3\<close> is 0, the analysis raises ZeroDivisionError and
  reports no share and no hotspot at all; nothing is reported as undefined.
\<close>

theorem zero_total_raises:
  "scope1 + scope2_location + scope3 = 0 \<Longrightarrow>
     analyze_complete_footprint cap scope1 scope2_location scope2_market scope3 bds
       = Inl ZeroDivisionError"
  by (rule analyze_zero)

theorem zero_total_raises_witness:
  "(0::rat) + 0 + 0 = 0 \<and>
   analyze_complete_footprint 1000000 0 0 175 0
     \<lparr>scope1_breakdown = [(''fugitive'', 0)], scope3_breakdown = [(''waste'', 0)]\<rparr>
       = Inl ZeroDivisionError"
  using zero_total_raises [of 0 0 0 1000000 175
    "\<lparr>scope1_breakdown = [(''fugitive'', 0)], scope3_breakdown = [(''waste'', 0)]\<rparr>"]
  by simp

lemma quotient_differs:
  fixes t :: rat
  assumes "t \<noteq> 0" "n \<noteq> 100"
  shows "truediv t n \<noteq> Inr (t / 100)"
proof (cases "n = 0")
  case True
  then show ?thesis by (simp add: truediv_def)
next
  case False
  have "t / n \<noteq> t / 100"
  proof
    assume "t / n = t / 100"
    then have "t = 0 \<or> n = 100" by (simp only: divide_cancel_left)
    with assms show False by simp
  qed
  with False show ?thesis by (simp add: truediv_def)
qed

text \<open>
  C10. Whenever the analysis reports an intensity (the location-based total is not zero and
  the three bars of the distribution chart can be built), the total it reports is
  \<open>scope1 + scope2_location + scope3\<close> and the intensity is that total divided by the
  constant 100; the analysis is not given the profile. So for every employee count \<open>n\<close>
  other than 100, dividing the total by \<open>n\<close> (which raises for \<open>n = 0\<close>) never gives the
  reported intensity.
\<close>

theorem intensity_fixed_headcount:
  assumes "scope1 + scope2_location + scope3 \<noteq> 0"
    and "bar_fits cap (scope1 / (scope1 + scope2_location + scope3) * 100)"
    and "bar_fits cap (scope2_location / (scope1 + scope2_location + scope3) * 100)"
    and "bar_fits cap (scope3 / (scope1 + scope2_location + scope3) * 100)"
  shows "\<exists>r. analyze_complete_footprint cap scope1 scope2_location scope2_market scope3 bds
                = Inr r \<and>
           total_location r = scope1 + scope2_location + scope3 \<and>
           intensity r = (scope1 + scope2_location + scope3) / 100 \<and>
           (\<forall>n. n \<noteq> 100 \<longrightarrow>
              truediv (scope1 + scope2_location + scope3) n \<noteq> Inr (intensity r))"
  unfolding analyze_nonzero [OF assms] using assms(1)
  by (simp add: quotient_differs)

theorem intensity_fixed_headcount_witness:
  "(1::rat) + 1 + 1 \<noteq> 0 \<and>
   bar_fits 1000000 (1 / (1 + 1 + 1) * 100) \<and> (250::rat) \<noteq> 100 \<and>
   (\<exists>r. analyze_complete_footprint 1000000 1 1 1 1
          \<lparr>scope1_breakdown = [], scope3_breakdown = []\<rparr> = Inr r \<and>
        total_location r = 3 \<and> intensity r = 3 / 100 \<and>
        truediv 3 250 \<noteq> Inr (intensity r))"
proof -
  have h: "(1::rat) + 1 + 1 \<noteq> 0" "bar_fits 1000000 (1 / (1 + 1 + 1) * 100)"
    by (simp_all add: bar_fits_def py_int_def ssize_max_def)
  have n: "(250::rat) \<noteq> 100" by simp
  from intensity_fixed_headcount [OF h(1) h(2) h(2) h(2), of 1
      "\<lparr>scope1_breakdown = [], scope3_breakdown = []\<rparr>"]
  obtain r where r:
    "analyze_complete_footprint 1000000 1 1 1 1 \<lparr>scope1_breakdown = [], scope3_breakdown = []\<rparr>
       = Inr r"
    "total_location r = 1 + 1 + 1" "intensity r = (1 + 1 + 1) / 100"
    "\<forall>n. n \<noteq> 100 \<longrightarrow> truediv (1 + 1 + 1) n \<noteq> Inr (intensity r)"
    by blast
  from r(4) n have "truediv 3 250 \<noteq> Inr (intensity r)" by simp
  with h n r show ?thesis by simp
qed

subsection \<open>The scope calculators\<close>

lemma add_category_pair: "add_category k v (t, bd) = (t + v, dict_set bd k v)"
  by (simp add: add_category_def)

lemma scope3_value:
  "calculate_scope3_emissions svc token cd =
     (case svc ''business_travel'' (business_travel_payload cd) token of
        NoResponse \<Rightarrow> Inl ConnectionError
      | Response st body \<Rightarrow>
          if st = 200 \<and> body = None then Inl MalformedBody
          else
            (let entries =
               [(''purchased_goods'', get (annual_procurement_spend cd) 5000000 * (35 / 100000)),
                (''capital_goods'', get (capital_expenditure cd) 1000000 * (45 / 100000)),
                (''fuel_energy_related'', 0),
                (''upstream_transport'', get (annual_procurement_spend cd) 5000000 * (8 / 100000)),
                (''waste'', get (employee_count cd) 100 * (2 / 10)),
                (''business_travel'',
                   if st = 200 then the body else get (annual_air_miles cd) 500000 * (15 / 100000)),
                (''commuting'',
                   get (employee_count cd) 100 * get (avg_commute_miles cd) 20 * 220 * (4 / 10000))]
               @ (if get (sells_energy_using_products cd) False
                  then [(''use_of_products'',
                         get (products_sold cd) 10000 * get (product_lifetime_kwh cd) 1000
                           * (4 / 10000))]
                  else [])
               @ (if get (sells_physical_products cd) False
                  then [(''end_of_life'', get (annual_product_weight_tonnes cd) 100 * (5 / 10))]
                  else [])
             in Inr (sum_list (map snd entries), entries)))"
proof (cases "svc ''business_travel'' (business_travel_payload cd) token")
  case NoResponse
  then show ?thesis
    by (simp add: calculate_scope3_emissions_def call_emission_api_def then_do_def Let_def)
next
  case (Response st body)
  show ?thesis
  proof (cases "st = 200")
    case True
    show ?thesis
    proof (cases body)
      case None
      with True Response show ?thesis
        by (simp add: calculate_scope3_emissions_def call_emission_api_def then_do_def Let_def
            co2e_of_def)
    next
      case (Some v)
      with True Response show ?thesis
        unfolding calculate_scope3_emissions_def
        by (simp add: call_emission_api_def then_do_def add_category_pair dict_get_def Let_def
            co2e_of_def)
    qed
  next
    case False
    with Response show ?thesis
      unfolding calculate_scope3_emissions_def
      by (simp add: call_emission_api_def then_do_def add_category_pair dict_get_def Let_def)
  qed
qed

lemma scope1_category_value:
  "scope1_category svc token endpoint pl key (t, bd) =
     (case svc endpoint pl token of
        NoResponse \<Rightarrow> Inl ConnectionError
      | Response st body \<Rightarrow>
          if st = 200
          then (case body of None \<Rightarrow> Inl MalformedBody | Some e \<Rightarrow> Inr (t + e, dict_set bd key e))
          else Inr (t, bd))"
  by (simp add: scope1_category_def call_emission_api_def then_do_def co2e_of_def
      split: http_result.splits option.splits)

lemma scope2_method_value:
  "scope2_method svc token endpoint pl =
     (case svc endpoint pl token of
        NoResponse \<Rightarrow> Inl ConnectionError
      | Response st body \<Rightarrow>
          if st = 200 then (case body of None \<Rightarrow> Inl MalformedBody | Some e \<Rightarrow> Inr e)
          else Inr 0)"
  by (simp add: scope2_method_def call_emission_api_def then_do_def co2e_of_def
      split: http_result.splits option.splits)

text \<open>
  C1. The fuel/energy-related amount is meant to be 20% of the Scope 1 stationary-combustion
  amount (the source comments it as "well-to-tank emissions for Scope 1 fuels", "20% WTT"),
  but the calculator looks the key \<open>stationary_combustion\<close> up in its own, Scope 3,
  breakdown, which never holds it, and it is not given the Scope 1 breakdown at all. With
  a service that answers every call with 265 tonnes, Scope 1 reports 265 tonnes of
  stationary combustion and Scope 3 reports a fuel/energy-related amount of 0, not 53.
\<close>

theorem fuel_energy_ignores_scope1:
  "calculate_scope1_emissions (flat_service 200 (Some 265)) ''tok'' example_company_data
     = Inr (795, [(''stationary_combustion'', 265), (''mobile_combustion'', 265),
                  (''fugitive'', 265)]) \<and>
   calculate_scope3_emissions (flat_service 200 (Some 265)) ''tok'' example_company_data
     = Inr (3061, [(''purchased_goods'', 1750), (''capital_goods'', 450),
                   (''fuel_energy_related'', 0), (''upstream_transport'', 400),
                   (''waste'', 20), (''business_travel'', 265), (''commuting'', 176)])"
  by (simp add: calculate_scope1_emissions_def scope1_category_value scope3_value then_do_def
      flat_service_def example_company_data_def get_def)


lemma scope1_value:
  assumes "svc ''stationary'' (stationary_payload cd) token = Response st1 body1"
    "svc ''mobile'' (mobile_payload cd) token = Response st2 body2"
    "svc ''fugitive'' (fugitive_payload cd) token = Response st3 body3"
    "st1 = 200 \<longrightarrow> body1 \<noteq> None" "st2 = 200 \<longrightarrow> body2 \<noteq> None" "st3 = 200 \<longrightarrow> body3 \<noteq> None"
  shows "calculate_scope1_emissions svc token cd =
     (let entries = (if st1 = 200 then [(''stationary_combustion'', the body1)] else [])
                  @ (if st2 = 200 then [(''mobile_combustion'', the body2)] else [])
                  @ (if st3 = 200 then [(''fugitive'', the body3)] else [])
      in Inr (sum_list (map snd entries), entries))"
  using assms
  by (auto simp: calculate_scope1_emissions_def scope1_category_value then_do_def Let_def)

text \<open>
  C3, as the code has it. Scope 1 has no estimator. With a service that answers every call
  with status 503 the Scope 1 breakdown is empty: the three keys are left out, none is
  there with amount 0. With a service that cannot be reached the calculator ends in the
  connection error of the first call, and with a status 200 whose body lacks the
  \<open>CO2e\<close> field it ends in the error of reading that field.
\<close>

theorem failed_calls_counterexample:
  "calculate_scope1_emissions (flat_service 503 None) ''tok'' example_company_data = Inr (0, []) \<and>
   calculate_scope1_emissions unreachable_service ''tok'' example_company_data
     = Inl ConnectionError \<and>
   calculate_scope1_emissions (flat_service 200 None) ''tok'' example_company_data
     = Inl MalformedBody"
  by (simp add: calculate_scope1_emissions_def scope1_category_value then_do_def
      flat_service_def unreachable_service_def)

text \<open>
  C3, amended. When the business-travel call is answered with a status other than 200,
  Scope 3 still returns, with the business-travel amount \<open>annual_air_miles * 0.00015\<close> of
  the local estimator. When the three Scope 1 calls are answered (and every answer with
  status 200 carries the \<open>CO2e\<close> field), Scope 1 returns; a category is in the breakdown
  exactly if its call was answered with status 200, a category answered with another
  status is left out, and the subtotal is the sum of the entries present. When the two
  Scope 2 calls are answered, Scope 2 returns, with 0 for a method answered with a status
  other than 200.
\<close>

theorem non_200_handling:
  "(\<forall>st body. svc ''business_travel'' (business_travel_payload cd) token = Response st body
        \<and> st \<noteq> 200 \<longrightarrow>
      (\<exists>t bd. calculate_scope3_emissions svc token cd = Inr (t, bd) \<and>
         map_of bd ''business_travel'' = Some (get (annual_air_miles cd) 500000 * (15 / 100000)))) \<and>
   (answered (svc ''stationary'' (stationary_payload cd) token) \<and>
    answered (svc ''mobile'' (mobile_payload cd) token) \<and>
    answered (svc ''fugitive'' (fugitive_payload cd) token) \<longrightarrow>
      (\<exists>t bd. calculate_scope1_emissions svc token cd = Inr (t, bd) \<and>
         t = sum_list (map snd bd) \<and>
         (''stationary_combustion'' \<in> fst ` set bd
            \<longleftrightarrow> ok (svc ''stationary'' (stationary_payload cd) token)) \<and>
         (''mobile_combustion'' \<in> fst ` set bd
            \<longleftrightarrow> ok (svc ''mobile'' (mobile_payload cd) token)) \<and>
         (''fugitive'' \<in> fst ` set bd
            \<longleftrightarrow> ok (svc ''fugitive'' (fugitive_payload cd) token)))) \<and>
   (answered (svc ''location_based'' (location_payload cd) token) \<and>
    answered (svc ''market_based'' (market_payload cd) token) \<longrightarrow>
      (\<exists>loc mkt. calculate_scope2_emissions svc token cd = Inr (loc, mkt) \<and>
         (\<not> ok (svc ''location_based'' (location_payload cd) token) \<longrightarrow> loc = 0) \<and>
         (\<not> ok (svc ''market_based'' (market_payload cd) token) \<longrightarrow> mkt = 0)))"
proof (intro conjI allI impI)
  fix st body
  assume "svc ''business_travel'' (business_travel_payload cd) token = Response st body \<and> st \<noteq> 200"
  then show "\<exists>t bd. calculate_scope3_emissions svc token cd = Inr (t, bd) \<and>
         map_of bd ''business_travel'' = Some (get (annual_air_miles cd) 500000 * (15 / 100000))"
    by (simp add: scope3_value Let_def)
next
  assume a: "answered (svc ''stationary'' (stationary_payload cd) token) \<and>
    answered (svc ''mobile'' (mobile_payload cd) token) \<and>
    answered (svc ''fugitive'' (fugitive_payload cd) token)"
  then obtain st1 body1 st2 body2 st3 body3 where
    r: "svc ''stationary'' (stationary_payload cd) token = Response st1 body1"
       "svc ''mobile'' (mobile_payload cd) token = Response st2 body2"
       "svc ''fugitive'' (fugitive_payload cd) token = Response st3 body3"
    by (auto simp: answered_def split: http_result.splits)
  with a have b: "st1 = 200 \<longrightarrow> body1 \<noteq> None" "st2 = 200 \<longrightarrow> body2 \<noteq> None"
    "st3 = 200 \<longrightarrow> body3 \<noteq> None"
    by (simp_all add: answered_def)
  show "\<exists>t bd. calculate_scope1_emissions svc token cd = Inr (t, bd) \<and>
         t = sum_list (map snd bd) \<and>
         (''stationary_combustion'' \<in> fst ` set bd
            \<longleftrightarrow> ok (svc ''stationary'' (stationary_payload cd) token)) \<and>
         (''mobile_combustion'' \<in> fst ` set bd
            \<longleftrightarrow> ok (svc ''mobile'' (mobile_payload cd) token)) \<and>
         (''fugitive'' \<in> fst ` set bd
            \<longleftrightarrow> ok (svc ''fugitive'' (fugitive_payload cd) token))"
    unfolding scope1_value [where svc = svc and cd = cd and token = token, OF r b] r
    by (auto simp: ok_def Let_def)
next
  assume "answered (svc ''location_based'' (location_payload cd) token) \<and>
    answered (svc ''market_based'' (market_payload cd) token)"
  then show "\<exists>loc mkt. calculate_scope2_emissions svc token cd = Inr (loc, mkt) \<and>
         (\<not> ok (svc ''location_based'' (location_payload cd) token) \<longrightarrow> loc = 0) \<and>
         (\<not> ok (svc ''market_based'' (market_payload cd) token) \<longrightarrow> mkt = 0)"
    by (auto simp: calculate_scope2_emissions_def scope2_method_value then_do_def answered_def
        ok_def split: http_result.splits)
qed

theorem non_200_handling_witness:
  "partial_service ''business_travel'' (business_travel_payload example_company_data) ''tok''
     = Response 503 None \<and> (503::int) \<noteq> 200 \<and>
   answered (partial_service ''stationary'' (stationary_payload example_company_data) ''tok'') \<and>
   answered (partial_service ''mobile'' (mobile_payload example_company_data) ''tok'') \<and>
   answered (partial_service ''fugitive'' (fugitive_payload example_company_data) ''tok'') \<and>
   answered (partial_service ''location_based'' (location_payload example_company_data) ''tok'') \<and>
   answered (partial_service ''market_based'' (market_payload example_company_data) ''tok'') \<and>
   \<not> ok (partial_service ''location_based'' (location_payload example_company_data) ''tok'') \<and>
   \<not> ok (partial_service ''market_based'' (market_payload example_company_data) ''tok'') \<and>
   (\<exists>t bd. calculate_scope3_emissions partial_service ''tok'' example_company_data = Inr (t, bd) \<and>
      map_of bd ''business_travel'' = Some 75) \<and>
   calculate_scope1_emissions partial_service ''tok'' example_company_data
     = Inr (265, [(''stationary_combustion'', 265)]) \<and>
   calculate_scope2_emissions partial_service ''tok'' example_company_data = Inr (0, 0)"
proof -
  have p: "partial_service ''business_travel'' (business_travel_payload example_company_data) ''tok''
     = Response 503 None"
    "answered (partial_service ''stationary'' (stationary_payload example_company_data) ''tok'')"
    "answered (partial_service ''mobile'' (mobile_payload example_company_data) ''tok'')"
    "answered (partial_service ''fugitive'' (fugitive_payload example_company_data) ''tok'')"
    "answered (partial_service ''location_based'' (location_payload example_company_data) ''tok'')"
    "answered (partial_service ''market_based'' (market_payload example_company_data) ''tok'')"
    "\<not> ok (partial_service ''location_based'' (location_payload example_company_data) ''tok'')"
    "\<not> ok (partial_service ''market_based'' (market_payload example_company_data) ''tok'')"
    by (simp_all add: answered_def ok_def business_travel_payload_def stationary_payload_def
        mobile_payload_def fugitive_payload_def location_payload_def market_payload_def Let_def)
  have m: "get (annual_air_miles example_company_data) 500000 * (15 / 100000) = (75::rat)"
    by (simp add: example_company_data_def get_def)
  from non_200_handling [of partial_service example_company_data "''tok''"] p m
  have 3: "\<exists>t bd. calculate_scope3_emissions partial_service ''tok'' example_company_data = Inr (t, bd) \<and>
      map_of bd ''business_travel'' = Some 75"
    by simp
  have 1: "calculate_scope1_emissions partial_service ''tok'' example_company_data
     = Inr (265, [(''stationary_combustion'', 265)])"
    by (simp add: calculate_scope1_emissions_def scope1_category_value then_do_def
        stationary_payload_def mobile_payload_def fugitive_payload_def)
  from non_200_handling [of partial_service example_company_data "''tok''"] p
  have 2: "calculate_scope2_emissions partial_service ''tok'' example_company_data = Inr (0, 0)"
    by auto
  from p 1 2 3 show ?thesis by simp
qed


subsection \<open>The reduction pathway\<close>

lemma pathway_targets_nonzero:
  "b \<noteq> 0 \<Longrightarrow> pathway_targets b hs =
     Inr (map (\<lambda>h. \<lparr>year = h, target = b * (1 - 42 / 1000) ^ h,
                     reduction = b - b * (1 - 42 / 1000) ^ h,
                     reduction_pct = (b - b * (1 - 42 / 1000) ^ h) / b * 100\<rparr>) hs)"
  by (induction hs) (simp_all add: Let_def then_do_def truediv_def annual_reduction_rate_def)

lemma pathway_zero: "calculate_reduction_pathway 0 = Inl ZeroDivisionError"
  by (simp add: calculate_reduction_pathway_def then_do_def truediv_def Let_def)

lemma pathway_nonzero:
  "b \<noteq> 0 \<Longrightarrow> calculate_reduction_pathway b =
     Inr \<lparr>targets = map (\<lambda>h. \<lparr>year = h, target = b * (1 - 42 / 1000) ^ h,
                     reduction = b - b * (1 - 42 / 1000) ^ h,
                     reduction_pct = (b - b * (1 - 42 / 1000) ^ h) / b * 100\<rparr>) [1, 3, 5, 10],
          target_2030 = b * (5 / 10), target_2050 = b * (1 / 10),
          annual_reduction_2030 = (b - b * (5 / 10)) / 6,
          monthly_reduction_2030 = (b - b * (5 / 10)) / 6 / 12,
          weekly_reduction_2030 = (b - b * (5 / 10)) / 6 / 52\<rparr>"
  by (simp add: calculate_reduction_pathway_def pathway_targets_nonzero then_do_def Let_def
      del: pathway_targets.simps)

text \<open>
  C7, as the code has it. At a baseline of 1000 tonnes the year-1 percentage is 4.2, one
  hundred times \<open>reduction / baseline = 0.042\<close>, and the year-10 target is below 652
  tonnes, so it is not 653.4 to any reasonable rounding.
\<close>

theorem pathway_counterexample:
  "(case calculate_reduction_pathway 1000 of
      Inl e \<Rightarrow> False
    | Inr r \<Rightarrow> reduction_pct (targets r ! 0) = 42 / 10 \<and>
               reduction (targets r ! 0) / 1000 = 42 / 1000 \<and>
               target (targets r ! 3) < 652)"
proof -
  have nz: "(1000::rat) \<noteq> 0" by simp
  show ?thesis
    unfolding pathway_nonzero [OF nz] by (simp add: power_divide)
qed


text \<open>
  C7, amended. For every baseline above 0 the pathway returns, and for each horizon year
  \<open>h\<close> of 1, 3, 5, 10, in this order, the target is \<open>baseline * (1 - 0.042) ^ h\<close>, the
  reduction is \<open>baseline - target\<close> and the reduction percentage is
  \<open>reduction / baseline * 100\<close>. For a baseline of 1000 the year-1 target is 958 and the
  year-10 target is 651.1 to one decimal.
\<close>

theorem pathway_formula:
  assumes "0 < b"
  shows "\<exists>r. calculate_reduction_pathway b = Inr r \<and>
     targets r = map (\<lambda>h. \<lparr>year = h, target = b * (1 - 42 / 1000) ^ h,
                     reduction = b - b * (1 - 42 / 1000) ^ h,
                     reduction_pct = (b - b * (1 - 42 / 1000) ^ h) / b * 100\<rparr>) [1, 3, 5, 10] \<and>
     (b = 1000 \<longrightarrow> target (targets r ! 0) = 958 \<and> \<bar>target (targets r ! 3) - 6511 / 10\<bar> \<le> 1 / 20)"
proof -
  from assms have nz: "b \<noteq> 0" by simp
  show ?thesis
    unfolding pathway_nonzero [OF nz] by (simp add: power_divide)
qed


theorem pathway_formula_witness:
  "(0::rat) < 1000 \<and>
   (\<exists>r. calculate_reduction_pathway 1000 = Inr r \<and>
        map year (targets r) = [1, 3, 5, 10] \<and>
        target (targets r ! 0) = 958 \<and> reduction (targets r ! 0) = 42 \<and>
        reduction_pct (targets r ! 0) = 42 / 10 \<and>
        \<bar>target (targets r ! 3) - 6511 / 10\<bar> \<le> 1 / 20)"
proof -
  have h: "(0::rat) < 1000" by simp
  show ?thesis
    using pathway_formula [OF h] by auto
qed

text \<open>
  C4, as the code has it. The pathway has no check of its baseline: at 0 it ends in
  Python's ZeroDivisionError, and at -1000 it computes targets (a 2030 target of -500).
\<close>

theorem zero_baseline_counterexample:
  "calculate_reduction_pathway 0 = Inl ZeroDivisionError \<and>
   (case calculate_reduction_pathway (- 1000) of
      Inl e \<Rightarrow> False
    | Inr r \<Rightarrow> target_2030 r = - 500 \<and> target (targets r ! 0) = - 958)"
proof -
  have nz: "(- 1000::rat) \<noteq> 0" by simp
  show ?thesis
    unfolding pathway_nonzero [OF nz] by (simp add: pathway_zero)
qed

text \<open>
  C4, amended. Invoked with a baseline of 0 the pathway raises ZeroDivisionError, while
  computing the first horizon year. Invoked with a baseline below 0 it raises nothing and
  computes every target by the same formulas as for a positive baseline.
\<close>

theorem negative_baseline:
  "calculate_reduction_pathway 0 = Inl ZeroDivisionError \<and>
   (b < 0 \<longrightarrow> (\<exists>r. calculate_reduction_pathway b = Inr r \<and>
      map target (targets r) = map (\<lambda>h. b * (1 - 42 / 1000) ^ h) [1, 3, 5, 10] \<and>
      target_2030 r = b * (5 / 10) \<and> target_2050 r = b * (1 / 10)))"
proof (intro conjI impI)
  show "calculate_reduction_pathway 0 = Inl ZeroDivisionError" by (rule pathway_zero)
next
  assume "b < 0"
  then have nz: "b \<noteq> 0" by simp
  show "\<exists>r. calculate_reduction_pathway b = Inr r \<and>
      map target (targets r) = map (\<lambda>h. b * (1 - 42 / 1000) ^ h) [1, 3, 5, 10] \<and>
      target_2030 r = b * (5 / 10) \<and> target_2050 r = b * (1 / 10)"
    unfolding pathway_nonzero [OF nz] by simp
qed


theorem negative_baseline_witness:
  "(- 1000::rat) < 0 \<and>
   (\<exists>r. calculate_reduction_pathway (- 1000) = Inr r \<and>
        map target (targets r) = map (\<lambda>h. (- 1000) * (1 - 42 / 1000) ^ h) [1, 3, 5, 10] \<and>
        target_2030 r = - 500 \<and> target_2050 r = - 100)"
proof -
  have h: "(- 1000::rat) < 0" by simp
  show ?thesis
    using negative_baseline [of "- 1000"] h by simp
qed

subsection \<open>Market-based and location-based Scope 2\<close>

lemma scope2_answers:
  assumes "svc ''location_based'' (location_payload cd) token = Response 200 (Some l)"
    and "svc ''market_based'' (market_payload cd) token = Response 200 (Some m)"
  shows "calculate_scope2_emissions svc token cd = Inr (l, m)"
  using assms
  by (simp add: calculate_scope2_emissions_def scope2_method_value then_do_def)

lemma scope2_factor_service:
  "calculate_scope2_emissions (factor_service f) token cd =
     Inr (get (electricity_consumption cd) 500000 * f,
          get (electricity_consumption cd) 500000
            * (1 - get (renewable_energy_percent cd) 30 / 100) * f)"
  by (simp add: calculate_scope2_emissions_def scope2_method_value then_do_def
      location_payload_def market_payload_def Let_def source_emissions_def get_def)


text \<open>
  C9, as the code has it, with the service charging the same factor of 0.0005 tonnes per
  kWh under both methods. The calculator accepts a negative consumption: for -500000 kWh
  and a renewable share of 30 it reports a location-based total of -250 and a market-based
  total of -175, which is above it.
\<close>

theorem market_above_location_counterexample:
  "calculate_scope2_emissions (factor_service (5 / 10000)) ''tok''
       (example_company_data\<lparr>electricity_consumption := Some (- 500000)\<rparr>)
     = Inr (- 250, - 175) \<and>
   \<not> (- 175 \<le> (- 250::rat))"
  by (simp add: scope2_factor_service example_company_data_def get_def)

text \<open>
  C9, amended. For every consumption and renewable share, the request sent to the
  market-based endpoint carries the whole consumption and two sources: a grid portion
  \<open>consumption * (1 - renewable_share / 100)\<close> without a factor and a renewable portion
  \<open>consumption * (renewable_share / 100)\<close> with emission factor 0; the Scope 2 totals are
  the service's answers to the location-based request and to this request. With the
  service charging one non-negative per-kWh factor under both methods, a consumption that
  is not negative and a share between 0 and 100, the location-based total is the
  consumption times the factor, the market-based total is the grid portion times the
  factor, the market-based total is at most the location-based total, and the two are
  equal when the share is 0.
\<close>

theorem market_not_above_location:
  "(let kwh = get (electricity_consumption cd) 500000;
        share = get (renewable_energy_percent cd) 30
    in (\<forall>svc l m.
          svc ''location_based'' (LocationBased kwh (get (location cd) default_location)) token
            = Response 200 (Some l) \<and>
          svc ''market_based''
            (MarketBased kwh
               [\<lparr>source_type = ''grid_mix'', amount = kwh * (1 - share / 100),
                 emission_factor = None\<rparr>,
                \<lparr>source_type = ''renewable_energy_certificates'', amount = kwh * (share / 100),
                 emission_factor = Some 0\<rparr>]) token
            = Response 200 (Some m)
          \<longrightarrow> calculate_scope2_emissions svc token cd = Inr (l, m)) \<and>
       (0 \<le> f \<and> 0 \<le> kwh \<and> 0 \<le> share \<and> share \<le> 100 \<longrightarrow>
          (\<exists>loc mkt. calculate_scope2_emissions (factor_service f) token cd = Inr (loc, mkt) \<and>
             loc = kwh * f \<and> mkt = kwh * (1 - share / 100) * f \<and>
             mkt \<le> loc \<and> (share = 0 \<longrightarrow> mkt = loc))))"
proof -
  let ?kwh = "get (electricity_consumption cd) 500000"
  let ?p = "get (renewable_energy_percent cd) 30"
  have 1: "calculate_scope2_emissions svc token cd = Inr (l, m)"
    if "svc ''location_based'' (LocationBased ?kwh (get (location cd) default_location)) token
            = Response 200 (Some l) \<and>
        svc ''market_based''
            (MarketBased ?kwh
               [\<lparr>source_type = ''grid_mix'', amount = ?kwh * (1 - ?p / 100),
                 emission_factor = None\<rparr>,
                \<lparr>source_type = ''renewable_energy_certificates'', amount = ?kwh * (?p / 100),
                 emission_factor = Some 0\<rparr>]) token
            = Response 200 (Some m)"
    for svc l m
    using that by (intro scope2_answers) (simp_all add: location_payload_def market_payload_def Let_def)
  have 2: "\<exists>loc mkt. calculate_scope2_emissions (factor_service f) token cd = Inr (loc, mkt) \<and>
             loc = ?kwh * f \<and> mkt = ?kwh * (1 - ?p / 100) * f \<and>
             mkt \<le> loc \<and> (?p = 0 \<longrightarrow> mkt = loc)"
    if a: "0 \<le> f \<and> 0 \<le> ?kwh \<and> 0 \<le> ?p \<and> ?p \<le> 100"
  proof -
    from a have "0 \<le> ?kwh * f" by simp
    moreover from a have "1 - ?p / 100 \<le> 1" by simp
    ultimately have "(1 - ?p / 100) * (?kwh * f) \<le> 1 * (?kwh * f)"
      by (rule mult_right_mono [rotated])
    then have le: "?kwh * (1 - ?p / 100) * f \<le> ?kwh * f"
      by (simp add: mult.commute mult.left_commute)
    show ?thesis
      unfolding scope2_factor_service using le by simp
  qed
  from 1 2 show ?thesis
    unfolding Let_def by blast
qed

theorem market_not_above_location_witness:
  "flat_service 200 (Some 7) ''location_based''
     (LocationBased 500000 (get (location example_company_data) default_location)) ''tok''
     = Response 200 (Some 7) \<and>
   (0::rat) \<le> 5 / 10000 \<and>
   0 \<le> get (electricity_consumption example_company_data) 500000 \<and>
   0 \<le> get (renewable_energy_percent example_company_data) 30 \<and>
   get (renewable_energy_percent example_company_data) 30 \<le> 100 \<and>
   get (renewable_energy_percent (example_company_data\<lparr>renewable_energy_percent := Some 0\<rparr>)) 30
     = 0 \<and>
   calculate_scope2_emissions (flat_service 200 (Some 7)) ''tok'' example_company_data
     = Inr (7, 7) \<and>
   calculate_scope2_emissions (factor_service (5 / 10000)) ''tok'' example_company_data
     = Inr (250, 175) \<and>
   calculate_scope2_emissions (factor_service (5 / 10000)) ''tok''
       (example_company_data\<lparr>renewable_energy_percent := Some 0\<rparr>)
     = Inr (250, 250)"
proof -
  let ?cd0 = "example_company_data\<lparr>renewable_energy_percent := Some 0\<rparr>"
  have g: "get (electricity_consumption example_company_data) 500000 = 500000"
    "get (renewable_energy_percent example_company_data) 30 = 30"
    "get (electricity_consumption ?cd0) 500000 = 500000"
    "get (renewable_energy_percent ?cd0) 30 = 0"
    by (simp_all add: example_company_data_def get_def)
  have s: "flat_service 200 (Some 7) ''location_based''
     (LocationBased 500000 (get (location example_company_data) default_location)) ''tok''
     = Response 200 (Some 7)"
    by (simp add: flat_service_def)
  from market_not_above_location [of example_company_data "''tok''" "5 / 10000"] g
  have a: "calculate_scope2_emissions (flat_service 200 (Some 7)) ''tok'' example_company_data
             = Inr (7, 7)"
    and b: "calculate_scope2_emissions (factor_service (5 / 10000)) ''tok'' example_company_data
             = Inr (250, 175)"
    by (auto simp: Let_def flat_service_def)
  from market_not_above_location [of ?cd0 "''tok''" "5 / 10000"] g
  have c: "calculate_scope2_emissions (factor_service (5 / 10000)) ''tok'' ?cd0 = Inr (250, 250)"
    by (auto simp: Let_def)
  from g s a b c show ?thesis by simp
qed

subsection \<open>Cost-benefit analysis\<close>

text \<open>
  C5, as the code has it. The payback years reported for the four initiatives are 3.3,
  6.7, 6.7 and 5.0, the figures written in the catalog; the investment divided by the
  total annual value is 20/7, 100/17, 40/7 and 80/19 years, that is about 2.9, 5.9, 5.7
  and 4.2.
\<close>

theorem payback_counterexample:
  "map payback_period (strategy_lines (analyze_costs_and_benefits 1000))
     = [33 / 10, 67 / 10, 67 / 10, 5] \<and>
   map (\<lambda>l. investment l / total_annual_value l) (strategy_lines (analyze_costs_and_benefits 1000))
     = [20 / 7, 100 / 17, 40 / 7, 80 / 19]"
  by (simp add: analyze_costs_and_benefits_def strategies_def strategy_report_def carbon_price_def
      Let_def)


text \<open>
  C5, amended. For every initiative of the catalog the carbon value is the
  emission-reduction tonnage times the carbon price, which is the constant 50, and the
  total annual value is the annual energy savings plus that carbon value. The reported
  payback period is the figure stored with the initiative in the catalog (3.3, 6.7, 6.7,
  5.0 years), which is the investment divided by the annual energy savings alone, to one
  decimal; it does not depend on the total annual value or the carbon price. The analysis
  divides nothing, so it always returns.
\<close>

theorem payback_is_catalog_figure:
  "strategy_lines (analyze_costs_and_benefits total_emissions) =
     map (\<lambda>s. \<lparr>strategy_name = name s, investment = cost s, energy_savings = annual_savings s,
                carbon_value = emission_reduction s * 50,
                total_annual_value = annual_savings s + emission_reduction s * 50,
                payback_period = payback_years s\<rparr>) strategies \<and>
   map payback_years strategies = [33 / 10, 67 / 10, 67 / 10, 5] \<and>
   map (\<lambda>s. \<bar>payback_years s - cost s / annual_savings s\<bar> \<le> 1 / 20) strategies
     = [True, True, True, True]"
  by (simp add: analyze_costs_and_benefits_def strategies_def strategy_report_def carbon_price_def
      Let_def)

subsection \<open>The run and the profile\<close>










end
